theory Spec2Isabelle
  imports Complex_Main "HOL-Library.Multiset"
begin

section \<open>Miller index translation\<close>

text \<open>
  \<^verbatim>\<open>surface_generator\<close> receives the exposed plane as a tuple \<open>(h, k, l)\<close> of
  integers in the rhombohedral setting.  Python's \<open>x in list\<close> compares with \<open>==\<close>,
  which on tuples of integers is component-wise equality.
\<close>

type_synonym miller = "int \<times> int \<times> int"

definition plane_100 :: "miller list" where
  "plane_100 = [(1,0,0), (0,1,0), (1,-1,0), (-1,0,0), (0,-1,0), (-1,1,0)]"

definition plane_001 :: "miller list" where
  "plane_001 = [(0,0,1), (0,0,-1)]"

definition plane_110 :: "miller list" where
  "plane_110 = [(1,1,0), (1,-2,0), (2,-1,0), (-1,-1,0), (-1,2,0), (-2,1,0)]"

definition plane_012 :: "miller list" where
  "plane_012 = [(0,1,2), (1,-1,2), (-1,-1,2), (0,-2,-2), (-1,1,-2), (1,1,-2)]"

text \<open>
  The \<open>if\<close>/\<open>elif\<close> chain that binds the local \<open>mil\<close>.  There is no \<open>else\<close>:
  when no test succeeds the name stays unbound, which is the value \<open>None\<close> here.
\<close>

definition mil_of :: "miller \<Rightarrow> miller option" where
  "mil_of rhombohedral_miller =
     (if rhombohedral_miller \<in> set plane_100 then Some (1,1,0)
      else if rhombohedral_miller \<in> set plane_001 then Some (0,0,1)
      else if rhombohedral_miller \<in> set plane_110 then Some (1,0,0)
      else if rhombohedral_miller \<in> set plane_012 then Some (0,2,2)
      else None)"

text \<open>
  The same table as data, in the order the source tests it, and a first-match lookup
  over any such table; used to compare testing orders.
\<close>

definition family_table :: "(miller list \<times> miller) list" where
  "family_table =
     [(plane_100, (1,1,0)), (plane_001, (0,0,1)), (plane_110, (1,0,0)), (plane_012, (0,2,2))]"

fun first_match :: "(miller list \<times> miller) list \<Rightarrow> miller \<Rightarrow> miller option" where
  "first_match [] m = None"
| "first_match ((family, canonical) # rest) m =
     (if m \<in> set family then Some canonical else first_match rest m)"

section \<open>Numbers, errors and file names\<close>

text \<open>
  Lengths are Python floats.  They are modelled as rationals with exact division, so a
  theorem below speaks about the quotient itself and not about its nearest double; at
  the concrete inputs evaluated below the double quotient rounds to the same integer.
  \<open>round(x, 0)\<close> rounds to the nearest integer and sends a tie to the even neighbour,
  and \<open>int\<close> of the integral result is that integer.
\<close>

datatype error = UnboundLocalError | IndexError | ZeroDivisionError | LibraryError string

definition py_round :: "rat \<Rightarrow> int" where
  "py_round x =
     (let f = \<lfloor>x\<rfloor>; r = x - of_int f
      in if r < 1 / 2 then f
         else if 1 / 2 < r then f + 1
         else if even f then f else f + 1)"

text \<open>\<open>int(round(x / y, 0))\<close>: the division raises on a zero divisor.\<close>

definition multiplier :: "rat \<Rightarrow> rat \<Rightarrow> error + int" where
  "multiplier x y = (if y = 0 then Inl ZeroDivisionError else Inr (py_round (x / y)))"

text \<open>
  The f-string \<open>f'slab_{rhombohedral_miller}_{i}.cif'\<close> formats the tuple with
  \<open>str\<close>, which gives \<open>(h, k, l)\<close> with a comma and a space between the decimal
  integers, and the counter \<open>i\<close> in decimal.
\<close>

definition digit :: "nat \<Rightarrow> char" where
  "digit d = ''0123456789'' ! d"

fun str_nat :: "nat \<Rightarrow> string" where
  "str_nat n = (if n < 10 then [digit n] else str_nat (n div 10) @ [digit (n mod 10)])"

declare str_nat.simps [simp del]

definition str_int :: "int \<Rightarrow> string" where
  "str_int i = (if i < 0 then ''-'' @ str_nat (nat (- i)) else str_nat (nat i))"

definition str_miller :: "miller \<Rightarrow> string" where
  "str_miller m =
     (case m of (h, k, l) \<Rightarrow>
        ''('' @ str_int h @ '', '' @ str_int k @ '', '' @ str_int l @ '')'')"

definition slab_filename :: "miller \<Rightarrow> nat \<Rightarrow> string" where
  "slab_filename rhombohedral_miller i =
     ''slab_'' @ str_miller rhombohedral_miller @ ''_'' @ str_nat i @ ''.cif''"

section \<open>The crystallography library\<close>

text \<open>
  Everything geometric is done by pymatgen, which is not part of this program.  Its
  operations are parameters of the model, each one returning either an exception or
  its result:
  \<^item> \<open>Structure.from_file\<close> reads the unit cell;
  \<^item> \<open>SlabGenerator(...)\<close> builds a generator from its arguments and
    \<open>get_slabs()\<close> lists the candidate slabs;
  \<^item> \<open>slab.lattice.a\<close> and \<open>slab.lattice.b\<close> are the in-plane lattice lengths;
  \<^item> \<open>make_supercell\<close> replaces the receiver by its supercell (the result here is the
    receiver after the call);
  \<^item> \<open>get_orthogonal_c_slab\<close> builds and returns a new slab and leaves the receiver
    as it is;
  \<^item> \<open>to(filename=...)\<close> writes the receiver to a file (\<open>None\<close>: written).
\<close>

record 'cell slabgen_args =
  initial_structure :: 'cell
  miller_index :: miller
  min_slab_size :: rat
  min_vacuum_size :: rat
  center_slab :: bool
  lll_reduce :: bool
  primitive :: bool

record ('cell, 'gen, 'slab) pymatgen =
  Structure_from_file :: "string \<Rightarrow> error + 'cell"
  SlabGenerator :: "'cell slabgen_args \<Rightarrow> error + 'gen"
  get_slabs :: "'gen \<Rightarrow> error + 'slab list"
  lattice_a :: "'slab \<Rightarrow> rat"
  lattice_b :: "'slab \<Rightarrow> rat"
  make_supercell :: "int list \<Rightarrow> 'slab \<Rightarrow> error + 'slab"
  get_orthogonal_c_slab :: "'slab \<Rightarrow> error + 'slab"
  to_file :: "'slab \<Rightarrow> string \<Rightarrow> error option"

text \<open>
  What one invocation did: the exception it ended with, if any, the argument records the
  slab generator was constructed with, the supercell requests (receiver and scaling
  list) and the files written (name and content), each in the order of the calls.
\<close>

record ('cell, 'slab) outcome =
  raised :: "error option"
  generator_calls :: "'cell slabgen_args list"
  supercell_calls :: "('slab \<times> int list) list"
  written :: "(string \<times> 'slab) list"

section \<open>The slab generation function\<close>

text \<open>
  The loop \<open>for s, i in zip(slabs, np.arange(0, len(slabs)))\<close>.  Its body scales
  \<open>s\<close> in place, calls \<open>s.get_orthogonal_c_slab()\<close> as a statement, so that the
  slab this call returns is dropped, and writes \<open>s\<close>.
\<close>

fun export_slabs ::
  "('cell, 'gen, 'slab) pymatgen \<Rightarrow> miller \<Rightarrow> int \<Rightarrow> int \<Rightarrow> ('slab \<times> nat) list \<Rightarrow>
     ('cell, 'slab) outcome \<Rightarrow> ('cell, 'slab) outcome" where
  "export_slabs L rhombohedral_miller mult_a mult_b [] w = w"
| "export_slabs L rhombohedral_miller mult_a mult_b ((s, i) # rest) w =
     (let w1 = w\<lparr>supercell_calls := supercell_calls w @ [(s, [mult_a, mult_b, 1])]\<rparr>
      in case make_supercell L [mult_a, mult_b, 1] s of
           Inl e \<Rightarrow> w1\<lparr>raised := Some e\<rparr>
         | Inr s' \<Rightarrow>
             (case get_orthogonal_c_slab L s' of
                Inl e \<Rightarrow> w1\<lparr>raised := Some e\<rparr>
              | Inr _ \<Rightarrow>
                  (case to_file L s' (slab_filename rhombohedral_miller i) of
                     Some e \<Rightarrow> w1\<lparr>raised := Some e\<rparr>
                   | None \<Rightarrow>
                       export_slabs L rhombohedral_miller mult_a mult_b rest
                         (w1\<lparr>written :=
                               written w1 @ [(slab_filename rhombohedral_miller i, s')]\<rparr>))))"

text \<open>
  The two multipliers are computed once, before the loop, from \<open>slabs[0]\<close>; indexing
  an empty list raises.
\<close>

definition multipliers ::
  "('cell, 'gen, 'slab) pymatgen \<Rightarrow> rat \<Rightarrow> rat \<Rightarrow> 'slab list \<Rightarrow> error + (int \<times> int)" where
  "multipliers L width depth slabs =
     (case slabs of
        [] \<Rightarrow> Inl IndexError
      | s0 # _ \<Rightarrow>
          (case multiplier width (lattice_a L s0) of
             Inl e \<Rightarrow> Inl e
           | Inr mult_a \<Rightarrow>
               (case multiplier depth (lattice_b L s0) of
                  Inl e \<Rightarrow> Inl e
                | Inr mult_b \<Rightarrow> Inr (mult_a, mult_b))))"

text \<open>
  The whole function.  Reading the unbound local \<open>mil\<close> while the arguments of
  \<open>SlabGenerator\<close> are evaluated raises before the constructor is called.  The
  default \<open>padding=1.0\<close> is an argument here.
\<close>

definition surface_generator ::
  "('cell, 'gen, 'slab) pymatgen \<Rightarrow> rat \<Rightarrow> rat \<Rightarrow> rat \<Rightarrow> miller \<Rightarrow> rat \<Rightarrow>
     ('cell, 'slab) outcome" where
  "surface_generator L thickness width depth rhombohedral_miller padding =
     (let w0 = \<lparr>raised = None, generator_calls = [], supercell_calls = [], written = []\<rparr>
      in case Structure_from_file L ''Fe2O3_orth.cif'' of
           Inl e \<Rightarrow> w0\<lparr>raised := Some e\<rparr>
         | Inr fe2o3 \<Rightarrow>
             (case mil_of rhombohedral_miller of
                None \<Rightarrow> w0\<lparr>raised := Some UnboundLocalError\<rparr>
              | Some mil \<Rightarrow>
                  (let args = \<lparr>initial_structure = fe2o3, miller_index = mil,
                                 min_slab_size = thickness, min_vacuum_size = padding,
                                 center_slab = True, lll_reduce = True,
                                 primitive = False\<rparr>;
                       w1 = w0\<lparr>generator_calls := [args]\<rparr>
                   in case SlabGenerator L args of
                        Inl e \<Rightarrow> w1\<lparr>raised := Some e\<rparr>
                      | Inr slabgen \<Rightarrow>
                          (case get_slabs L slabgen of
                             Inl e \<Rightarrow> w1\<lparr>raised := Some e\<rparr>
                           | Inr slabs \<Rightarrow>
                               (case multipliers L width depth slabs of
                                  Inl e \<Rightarrow> w1\<lparr>raised := Some e\<rparr>
                                | Inr (mult_a, mult_b) \<Rightarrow>
                                    export_slabs L rhombohedral_miller mult_a mult_b
                                      (zip slabs [0..<length slabs]) w1)))))"

section \<open>A small library instance\<close>

text \<open>
  A stand-in for the library on which the function can be evaluated: a slab is its two
  in-plane lengths and whether its third lattice vector is tilted against the surface
  normal; the generator returns a fixed list of slabs.
\<close>

record toy_slab =
  len_a :: rat
  len_b :: rat
  tilted :: bool

definition toy_supercell :: "int list \<Rightarrow> toy_slab \<Rightarrow> error + toy_slab" where
  "toy_supercell scaling s =
     (case scaling of
        [na, nb, nc] \<Rightarrow> Inr (s\<lparr>len_a := of_int na * len_a s, len_b := of_int nb * len_b s\<rparr>)
      | _ \<Rightarrow> Inl (LibraryError ''scaling''))"

definition toy_library :: "toy_slab list \<Rightarrow> (string, string slabgen_args, toy_slab) pymatgen" where
  "toy_library slabs =
     \<lparr>Structure_from_file =
        (\<lambda>name. if name = ''Fe2O3_orth.cif'' then Inr ''Fe2O3'' else Inl (LibraryError name)),
      SlabGenerator = Inr,
      get_slabs = (\<lambda>_. Inr slabs),
      lattice_a = len_a,
      lattice_b = len_b,
      make_supercell = toy_supercell,
      get_orthogonal_c_slab = (\<lambda>s. Inr (s\<lparr>tilted := False\<rparr>)),
      to_file = (\<lambda>_ _. None)\<rparr>"

text \<open>Two slabs for the evaluations, and the argument record of the generator call.\<close>

definition slab_5_4 :: toy_slab where
  "slab_5_4 = \<lparr>len_a = 5, len_b = 4, tilted = True\<rparr>"

definition slab_10_8 :: toy_slab where
  "slab_10_8 = \<lparr>len_a = 10, len_b = 8, tilted = False\<rparr>"

abbreviation generator_args :: "'cell \<Rightarrow> miller \<Rightarrow> rat \<Rightarrow> rat \<Rightarrow> 'cell slabgen_args" where
  "generator_args fe2o3 mil thickness padding \<equiv>
     \<lparr>initial_structure = fe2o3, miller_index = mil, min_slab_size = thickness,
      min_vacuum_size = padding, center_slab = True, lll_reduce = True, primitive = False\<rparr>"

section \<open>Properties of the translation\<close>

lemmas planes = plane_100_def plane_001_def plane_110_def plane_012_def

lemma mil_of_first_match: "mil_of m = first_match family_table m"
  by (simp add: mil_of_def family_table_def)

text \<open>
  C1: every index listed in one of the four families is translated to the canonical
  orthorhombic index of that family: the (100) list to (1,1,0), the (001) list to
  (0,0,1), the (110) list to (1,0,0) and the (012) list to (0,2,2).
\<close>

theorem family_members_translate:
  "(\<forall>m \<in> set plane_100. mil_of m = Some (1,1,0)) \<and>
   (\<forall>m \<in> set plane_001. mil_of m = Some (0,0,1)) \<and>
   (\<forall>m \<in> set plane_110. mil_of m = Some (1,0,0)) \<and>
   (\<forall>m \<in> set plane_012. mil_of m = Some (0,2,2))"
  by (simp add: mil_of_def planes)

text \<open>One member of each family, taken through the theorem.\<close>

theorem family_members_translate_witness:
  "mil_of (1,-1,0) = Some (1,1,0) \<and> mil_of (0,0,-1) = Some (0,0,1) \<and>
   mil_of (-2,1,0) = Some (1,0,0) \<and> mil_of (0,-2,-2) = Some (0,2,2)"
  using family_members_translate by (simp add: planes)

text \<open>
  C9: an accepted index and its negation are both accepted, with the same translation.
  The lists of the (100), (001) and (110) families each hold every member together with
  its negation.  The (012) list does not: it holds (0,1,2) and (0,-2,-2), whose negations
  (0,-1,-2) and (0,2,2) are in no list, so those are left without a translation.
\<close>

theorem negated_012_rejected:
  "mil_of (0,1,2) = Some (0,2,2) \<and> mil_of (0,-1,-2) = None \<and>
   mil_of (0,-2,-2) = Some (0,2,2) \<and> mil_of (0,2,2) = None"
  by (simp add: mil_of_def planes)

subsection \<open>The order of the tests\<close>

lemma planes_disjoint:
  "set plane_100 \<inter> set plane_001 = {}" "set plane_100 \<inter> set plane_110 = {}"
  "set plane_100 \<inter> set plane_012 = {}" "set plane_001 \<inter> set plane_110 = {}"
  "set plane_001 \<inter> set plane_012 = {}" "set plane_110 \<inter> set plane_012 = {}"
  by (simp_all add: planes)

lemma first_match_None_iff:
  "first_match tbl m = None \<longleftrightarrow> (\<forall>(f, c) \<in> set tbl. m \<notin> set f)"
  by (induction tbl) (auto split: if_splits)

text \<open>
  When no two matching rows of a table disagree, the first match is a match of any row.
\<close>

lemma first_match_Some_iff:
  assumes "\<forall>(f, c) \<in> set tbl. \<forall>(g, d) \<in> set tbl. m \<in> set f \<longrightarrow> m \<in> set g \<longrightarrow> c = d"
  shows "first_match tbl m = Some c \<longleftrightarrow> (\<exists>f. (f, c) \<in> set tbl \<and> m \<in> set f)"
  using assms
proof (induction tbl)
  case Nil
  then show ?case by simp
next
  case (Cons p tbl)
  obtain f0 c0 where p: "p = (f0, c0)" by (cases p)
  show ?case
  proof (cases "m \<in> set f0")
    case True
    with Cons.prems p show ?thesis by fastforce
  next
    case False
    from Cons.prems
    have "\<forall>(f, c) \<in> set tbl. \<forall>(g, d) \<in> set tbl. m \<in> set f \<longrightarrow> m \<in> set g \<longrightarrow> c = d"
      by auto
    from Cons.IH[OF this] False p show ?thesis by auto
  qed
qed

lemma family_table_consistent:
  "\<forall>(f, c) \<in> set family_table. \<forall>(g, d) \<in> set family_table.
     m \<in> set f \<longrightarrow> m \<in> set g \<longrightarrow> c = d"
  using planes_disjoint by (auto simp: family_table_def)

lemma first_match_same_rows:
  assumes "set tbl = set family_table"
  shows "first_match tbl m = mil_of m"
proof (cases "first_match family_table m")
  case None
  then have "first_match tbl m = None"
    unfolding first_match_None_iff assms .
  with None show ?thesis by (simp add: mil_of_first_match)
next
  case (Some c)
  have "\<forall>(f, c) \<in> set tbl. \<forall>(g, d) \<in> set tbl. m \<in> set f \<longrightarrow> m \<in> set g \<longrightarrow> c = d"
    unfolding assms by (rule family_table_consistent)
  from first_match_Some_iff[OF this] first_match_Some_iff[OF family_table_consistent] Some assms
  have "first_match tbl m = Some c" by simp
  with Some show ?thesis by (simp add: mil_of_first_match)
qed

lemma supported_unique_family:
  assumes "mil_of m \<noteq> None"
  shows "\<exists>!family. family \<in> set (map fst family_table) \<and> m \<in> set family"
proof -
  from assms
  have "m \<in> set plane_100 \<or> m \<in> set plane_001 \<or> m \<in> set plane_110 \<or> m \<in> set plane_012"
    by (auto simp: mil_of_def split: if_splits)
  then show ?thesis
    using planes_disjoint by (auto simp: family_table_def)
qed

text \<open>
  C10: the four membership lists are pairwise disjoint; hence an index with a translation
  lies in exactly one family, and testing the four families in any other order (any
  rearrangement \<open>tbl\<close> of the table) gives the translation the source's order gives.
\<close>

theorem families_disjoint_order_irrelevant:
  "set plane_100 \<inter> set plane_001 = {} \<and> set plane_100 \<inter> set plane_110 = {} \<and>
   set plane_100 \<inter> set plane_012 = {} \<and> set plane_001 \<inter> set plane_110 = {} \<and>
   set plane_001 \<inter> set plane_012 = {} \<and> set plane_110 \<inter> set plane_012 = {} \<and>
   (mil_of m \<noteq> None \<longrightarrow>
      (\<exists>!family. family \<in> set (map fst family_table) \<and> m \<in> set family)) \<and>
   (mset tbl = mset family_table \<longrightarrow> first_match tbl m = mil_of m)"
  using planes_disjoint supported_unique_family[of m] first_match_same_rows[of tbl m]
    mset_eq_setD[of tbl family_table]
  by blast

text \<open>The index (0,1,2), with the four tests made in the reverse order.\<close>

theorem families_disjoint_order_irrelevant_witness:
  "mil_of (0,1,2) \<noteq> None \<and>
   (\<exists>!family. family \<in> set (map fst family_table) \<and> (0,1,2) \<in> set family) \<and>
   mset (rev family_table) = mset family_table \<and>
   first_match (rev family_table) (0,1,2) = mil_of (0,1,2)"
proof -
  have supported: "mil_of (0,1,2) \<noteq> None"
    by (simp add: mil_of_def planes)
  have rearranged: "mset (rev family_table) = mset family_table"
    by simp
  from families_disjoint_order_irrelevant[of "(0,1,2)" "rev family_table"] supported rearranged
  show ?thesis by blast
qed

section \<open>Rounding and the multipliers\<close>





lemma multiplier_20_5: "multiplier 20 5 = Inr 4"
  by code_simp
lemma multiplier_8_4: "multiplier 8 4 = Inr 2"
  by code_simp

section \<open>File names\<close>





lemma slab_filename_001_0: "slab_filename (0, 0, 1) 0 = ''slab_(0, 0, 1)_0.cif''"
  by code_simp


section \<open>The export loop\<close>

lemma export_generator_calls:
  "generator_calls (export_slabs L m a b ps w) = generator_calls w"
  by (induction ps arbitrary: w) (auto simp: Let_def split: sum.splits option.splits)



text \<open>
  The slab that \<open>get_orthogonal_c_slab\<close> returns is not used: putting any other slab
  \<open>f t\<close> in the place of the returned \<open>t\<close> changes nothing.
\<close>

lemma export_orthogonal_unused:
  "export_slabs (L\<lparr>get_orthogonal_c_slab := \<lambda>s. map_sum id f (get_orthogonal_c_slab L s)\<rparr>)
     m a b ps w =
   export_slabs L m a b ps w"
  by (induction ps arbitrary: w) (auto simp: Let_def split: sum.splits option.splits)

lemma surface_generator_orthogonal_unused:
  "surface_generator
     (L\<lparr>get_orthogonal_c_slab := \<lambda>s. map_sum id f (get_orthogonal_c_slab L s)\<rparr>)
     thickness width depth rm padding =
   surface_generator L thickness width depth rm padding"
  by (simp add: surface_generator_def multipliers_def export_orthogonal_unused Let_def
      split: sum.splits option.splits list.splits)




section \<open>The whole function\<close>


lemmas toy_simps = surface_generator_def toy_library_def toy_supercell_def multipliers_def
  mil_of_def planes slab_5_4_def slab_10_8_def

subsection \<open>An index outside the four families\<close>

text \<open>
  C2, as stated, lets the program go on with an undefined value after an index outside
  the four families.  It does not go on: at (1,1,1) the name \<open>mil\<close> stays unbound, and
  the invocation ends with the exception that reading it raises, before the slab
  generator is constructed.
\<close>

theorem unsupported_index_not_silent:
  "mil_of (1,1,1) = None \<and>
   surface_generator (toy_library [slab_5_4]) 10 20 8 (1,1,1) 2 =
     \<lparr>raised = Some UnboundLocalError, generator_calls = [], supercell_calls = [],
      written = []\<rparr>"
  by (simp add: toy_simps)

text \<open>
  C2, amended: for an index in none of the four lists the \<open>if\<close>/\<open>elif\<close> chain raises
  nothing and binds nothing; once the unit cell is loaded, the invocation ends with
  \<open>UnboundLocalError\<close>, the slab generator is never constructed and no file is written.
\<close>

theorem unsupported_index_unbound_local:
  assumes "rm \<notin> set plane_100" "rm \<notin> set plane_001" "rm \<notin> set plane_110"
    and "rm \<notin> set plane_012"
    and "Structure_from_file L ''Fe2O3_orth.cif'' = Inr fe2o3"
  shows "mil_of rm = None \<and>
         surface_generator L thickness width depth rm padding =
           \<lparr>raised = Some UnboundLocalError, generator_calls = [], supercell_calls = [],
            written = []\<rparr>"
  using assms by (simp add: surface_generator_def mil_of_def)

text \<open>The index (2,0,0) with the default padding.\<close>

theorem unsupported_index_unbound_local_witness:
  "mil_of (2,0,0) = None \<and>
   surface_generator (toy_library [slab_10_8]) 10 20 8 (2,0,0) 1 =
     \<lparr>raised = Some UnboundLocalError, generator_calls = [], supercell_calls = [],
      written = []\<rparr>"
  using unsupported_index_unbound_local
          [of "(2,0,0)" "toy_library [slab_10_8]" "''Fe2O3''" 10 20 8 1]
  by (simp add: planes toy_library_def)

subsection \<open>The call of the slab generator\<close>

text \<open>
  C8: once the unit cell is loaded and the index is translated, the slab generator is
  constructed exactly once, with the loaded cell, the translated index, the requested
  thickness as minimum slab size, the requested padding as minimum vacuum size,
  centering on, lattice reduction on and primitive-cell reduction off.
\<close>

theorem slab_generator_arguments:
  assumes "Structure_from_file L ''Fe2O3_orth.cif'' = Inr fe2o3"
    and "mil_of rm = Some mil"
  shows "generator_calls (surface_generator L thickness width depth rm padding) =
           [\<lparr>initial_structure = fe2o3, miller_index = mil, min_slab_size = thickness,
             min_vacuum_size = padding, center_slab = True, lll_reduce = True,
             primitive = False\<rparr>]"
  using assms
  by (simp add: surface_generator_def export_generator_calls Let_def
      split: sum.splits prod.splits)

text \<open>The index (0,-1,0), translated to (1,1,0).\<close>

theorem slab_generator_arguments_witness:
  "generator_calls (surface_generator (toy_library [slab_5_4]) 10 20 8 (0,-1,0) 2) =
     [\<lparr>initial_structure = ''Fe2O3'', miller_index = (1,1,0), min_slab_size = 10,
       min_vacuum_size = 2, center_slab = True, lll_reduce = True, primitive = False\<rparr>]"
  using slab_generator_arguments
          [of "toy_library [slab_5_4]" "''Fe2O3''" "(0,-1,0)" "(1,1,0)" 10 20 8 2]
  by (simp add: toy_library_def mil_of_def planes)

subsection \<open>No candidate slab\<close>

text \<open>
  C6, as stated, has the invocation end with a failure that says no valid slab exists.
  With an empty list of slabs the invocation does end with an exception and writes
  nothing, but the exception is the \<open>IndexError\<close> of \<open>slabs[0]\<close>.
\<close>

theorem empty_slabs_failure_is_index_error:
  "raised (surface_generator (toy_library []) 10 20 8 (0,0,1) 2) = Some IndexError \<and>
   written (surface_generator (toy_library []) 10 20 8 (0,0,1) 2) = []"
  by (simp add: toy_simps)

text \<open>
  C6, amended: when the generator returns an empty list, the invocation ends with the
  \<open>IndexError\<close> raised by \<open>slabs[0]\<close>; no supercell is requested and no file is
  written.
\<close>

theorem empty_slabs_index_error:
  assumes "Structure_from_file L ''Fe2O3_orth.cif'' = Inr fe2o3"
    and "mil_of rm = Some mil"
    and "SlabGenerator L (generator_args fe2o3 mil thickness padding) = Inr slabgen"
    and "get_slabs L slabgen = Inr []"
  shows "surface_generator L thickness width depth rm padding =
           \<lparr>raised = Some IndexError,
            generator_calls = [generator_args fe2o3 mil thickness padding],
            supercell_calls = [], written = []\<rparr>"
  using assms by (simp add: surface_generator_def multipliers_def)

text \<open>The index (1,0,0) and a generator without slabs.\<close>

theorem empty_slabs_index_error_witness:
  "surface_generator (toy_library []) 10 20 20 (1,0,0) 1 =
     \<lparr>raised = Some IndexError, generator_calls = [generator_args ''Fe2O3'' (1,1,0) 10 1],
      supercell_calls = [], written = []\<rparr>"
  using empty_slabs_index_error
          [of "toy_library []" "''Fe2O3''" "(1,0,0)" "(1,1,0)" 10 1
              "generator_args ''Fe2O3'' (1,1,0) 10 1" 20 20]
  by (simp add: toy_library_def mil_of_def planes)

subsection \<open>The supercell multipliers\<close>







subsection \<open>The files written\<close>

text \<open>
  C5: the slab written to a file is the scaled slab after re-orthogonalisation of its
  third lattice vector.  The function calls \<open>get_orthogonal_c_slab\<close> and drops the slab
  it returns: for a candidate with a tilted third vector the file holds the scaled slab,
  still tilted, and not the slab the call returned.
\<close>

theorem orthogonal_slab_not_written:
  "written (surface_generator (toy_library [slab_5_4]) 10 20 8 (0,0,1) 2) =
     [(''slab_(0, 0, 1)_0.cif'', \<lparr>len_a = 20, len_b = 8, tilted = True\<rparr>)] \<and>
   get_orthogonal_c_slab (toy_library [slab_5_4]) \<lparr>len_a = 20, len_b = 8, tilted = True\<rparr> =
     Inr \<lparr>len_a = 20, len_b = 8, tilted = False\<rparr>"
  by (simp add: toy_simps multiplier_20_5 multiplier_8_4 slab_filename_001_0 upt_rec)



end
